theory Spec2Isabelle
  imports Complex_Main
begin

section \<open>The scene/event engine of multimediafuzion4k.py\<close>

text \<open>
  The engine keeps named frames, each with a group of sprites and an ordered list of
  events; an event is a list of conditions and a list of actions. The embedding follows
  the classes of the source one by one. What belongs to pygame and to Python's builtins
  (attribute lookup in the pygame module, \<open>eval\<close>, \<open>float\<close>, fonts, rectangle overlap) is
  collected in the record \<open>env\<close> and every theorem holds for every such environment.
\<close>

subsection \<open>Values\<close>

text \<open>
  A colour is whatever tuple of integers \<open>eval\<close> produced and \<open>Surface.fill\<close> accepted.
  A rectangle is \<open>(x, y, w, h)\<close>. A counter holds a Python number: an \<open>int\<close> (the
  declared initial value, or the literal \<open>0\<close>) or a \<open>float\<close> (the result of
  \<open>float(value)\<close>); Python compares the two by their mathematical value. Non-finite
  floats are outside the model.
\<close>

type_synonym color = "int list"
type_synonym rect = "int \<times> int \<times> int \<times> int"

datatype pynum = PInt int | PFloat rat

fun num_val :: "pynum \<Rightarrow> rat" where
  "num_val (PInt i) = of_int i"
| "num_val (PFloat r) = r"

datatype error = TypeError | ValueError | AttributeError | IndexError | ColorError | ObjectError

datatype image = Filled color | TextRender string color | NumRender pynum color

record env =
  attr_key :: "string \<Rightarrow> nat option"
  eval_fill :: "string \<Rightarrow> color option"
  eval_ctor :: "string \<Rightarrow> color option"
  float_of :: "string \<Rightarrow> rat option"
  surface_ok :: "int \<Rightarrow> int \<Rightarrow> bool"
  font_ok :: "int \<Rightarrow> bool"
  text_size :: "string \<Rightarrow> int \<Rightarrow> int \<times> int"
  num_size :: "pynum \<Rightarrow> int \<Rightarrow> int \<times> int"
  colliderect :: "rect \<Rightarrow> rect \<Rightarrow> bool"

text \<open>
  \<^item> \<open>attr_key k\<close>: the key index \<open>getattr(pygame, k)\<close>, \<open>None\<close> when the
    lookup raises;
  \<^item> \<open>eval_fill s\<close>: the colour painted by \<open>obj.image.fill(eval(s))\<close>, \<open>None\<close> when
    \<open>eval\<close> or \<open>fill\<close> raises (\<open>eval\<close> is taken to return and to have no side
    effect);
  \<^item> \<open>eval_ctor s\<close>: the colour an object is constructed with from \<open>eval(s)\<close>,
    \<open>None\<close> when \<open>eval\<close> or the constructor's \<open>fill\<close> raises;
  \<^item> \<open>float_of s\<close>: \<open>float(s)\<close>, \<open>None\<close> for \<open>ValueError\<close>;
  \<^item> \<open>surface_ok w h\<close>: \<open>pygame.Surface((w, h))\<close> succeeds;
  \<^item> \<open>font_ok n\<close>: \<open>pygame.font.SysFont("Arial", n)\<close> and the first render succeed;
  \<^item> \<open>text_size\<close>, \<open>num_size\<close>: the size of the surface \<open>font.render\<close> returns
    for a text or for \<open>str(value)\<close> at a font size;
  \<^item> \<open>colliderect\<close>: \<open>Rect.colliderect\<close>.
\<close>

subsection \<open>Objects and frames\<close>

datatype obj_class = EngineObject | TextObject | CounterObject

record engine_obj =
  o_cls :: obj_class
  o_name :: string
  o_x :: int
  o_y :: int
  o_width :: int
  o_height :: int
  o_color :: color
  o_image :: image
  o_rect :: rect
  o_text :: string
  o_font_size :: int
  o_value :: pynum

text \<open>
  \<open>o_text\<close> is read only for a \<open>TextObject\<close>, \<open>o_value\<close> only for a
  \<open>CounterObject\<close>, \<open>o_font_size\<close> for both; the constructors below give the
  other classes a fixed filler there.
\<close>

datatype condition =
    KeyPressed string
  | ObjectCollision string string
  | CompareCounter string string pynum

datatype action =
    ChangeObjectColor string string
  | DestroyObject string
  | GoToFrame string
  | SetCounterValue string pynum

record event =
  ev_conditions :: "condition list"
  ev_actions :: "action list"

record frame =
  f_name :: string
  bg_color :: "int list"
  objects :: "engine_obj list"
  events :: "event list"

text \<open>
  \<open>objects\<close> is the sprite group in insertion order. \<open>Group.remove\<close> removes one
  sprite by identity; \<open>remove1\<close> removes the first element equal to it, which is the
  sprite that \<open>get_object_by_name\<close> returned.
\<close>

definition add_object :: "frame \<Rightarrow> engine_obj \<Rightarrow> frame" where
  "add_object f obj = f\<lparr>objects := objects f @ [obj]\<rparr>"

definition remove_object :: "frame \<Rightarrow> engine_obj \<Rightarrow> frame" where
  "remove_object f obj = f\<lparr>objects := remove1 obj (objects f)\<rparr>"

definition get_object_by_name :: "frame \<Rightarrow> string \<Rightarrow> engine_obj option" where
  "get_object_by_name f n = find (\<lambda>s. o_name s = n) (objects f)"

text \<open>In-place mutation of the sprite \<open>get_object_by_name\<close> returned.\<close>

fun update_first :: "('a \<Rightarrow> bool) \<Rightarrow> ('a \<Rightarrow> 'a) \<Rightarrow> 'a list \<Rightarrow> 'a list" where
  "update_first P g [] = []"
| "update_first P g (x # xs) = (if P x then g x # xs else x # update_first P g xs)"

definition mutate_object :: "frame \<Rightarrow> string \<Rightarrow> (engine_obj \<Rightarrow> engine_obj) \<Rightarrow> frame" where
  "mutate_object f n g = f\<lparr>objects := update_first (\<lambda>s. o_name s = n) g (objects f)\<rparr>"

subsection \<open>The state a tick works on\<close>

text \<open>
  A tick runs on one \<open>Frame\<close> object, the module global \<open>ENGINE_CURRENT_FRAME\<close> and
  pygame's key array (the state \<open>pygame.key.get_pressed()\<close> returns, \<open>None\<close> at an
  index where indexing raises).
\<close>

record world =
  w_frame :: frame
  ENGINE_CURRENT_FRAME :: "string option"
  key_array :: "nat \<Rightarrow> bool option"

subsection \<open>Conditions\<close>

definition compare :: "string \<Rightarrow> pynum \<Rightarrow> pynum \<Rightarrow> bool" where
  "compare opr a b =
     (if opr = ''=='' then num_val a = num_val b
      else if opr = ''!='' then num_val a \<noteq> num_val b
      else if opr = ''<'' then num_val a < num_val b
      else if opr = ''<='' then num_val a \<le> num_val b
      else if opr = ''>'' then num_val a > num_val b
      else if opr = ''>='' then num_val a \<ge> num_val b
      else False)"

text \<open>
  The body of the \<open>try\<close> in \<open>KeyPressed.check\<close>, \<open>keys[getattr(pygame, self.key)]\<close>,
  with its two exceptions; the bare \<open>except\<close> turns either into \<open>False\<close>.
\<close>

definition key_lookup :: "env \<Rightarrow> world \<Rightarrow> string \<Rightarrow> error + bool" where
  "key_lookup E w k =
     (case attr_key E k of
        None \<Rightarrow> Inl AttributeError
      | Some i \<Rightarrow> (case key_array w i of None \<Rightarrow> Inl IndexError | Some b \<Rightarrow> Inr b))"

fun check :: "env \<Rightarrow> condition \<Rightarrow> world \<Rightarrow> bool" where
  "check E (KeyPressed k) w = (case key_lookup E w k of Inl e \<Rightarrow> False | Inr b \<Rightarrow> b)"
| "check E (ObjectCollision obj_a obj_b) w =
     (case get_object_by_name (w_frame w) obj_a of
        None \<Rightarrow> False
      | Some oa \<Rightarrow>
          (case get_object_by_name (w_frame w) obj_b of
             None \<Rightarrow> False
           | Some ob \<Rightarrow> colliderect E (o_rect oa) (o_rect ob)))"
| "check E (CompareCounter counter_name opr v) w =
     (case get_object_by_name (w_frame w) counter_name of
        None \<Rightarrow> False
      | Some c \<Rightarrow>
          (if o_cls c \<noteq> CounterObject then False else compare opr (o_value c) v))"

subsection \<open>Actions\<close>

definition set_value :: "env \<Rightarrow> pynum \<Rightarrow> engine_obj \<Rightarrow> engine_obj" where
  "set_value E v c =
     (case num_size E v (o_font_size c) of
        (rw, rh) \<Rightarrow>
          c\<lparr>o_value := v, o_image := NumRender v (o_color c),
            o_rect := (o_x c, o_y c, rw, rh)\<rparr>)"

text \<open>
  The body of the \<open>try\<close> in \<open>ChangeObjectColor.execute\<close>, \<open>eval\<close> and then
  \<open>obj.image.fill(c)\<close>; the bare \<open>except\<close> passes.
\<close>

definition fill_image :: "env \<Rightarrow> string \<Rightarrow> engine_obj \<Rightarrow> error + engine_obj" where
  "fill_image E color_str obj =
     (case eval_fill E color_str of
        None \<Rightarrow> Inl ColorError
      | Some c \<Rightarrow> Inr (obj\<lparr>o_image := Filled c\<rparr>))"

fun execute :: "env \<Rightarrow> action \<Rightarrow> world \<Rightarrow> world" where
  "execute E (ChangeObjectColor obj_name color_str) w =
     (case get_object_by_name (w_frame w) obj_name of
        None \<Rightarrow> w
      | Some obj \<Rightarrow>
          (case fill_image E color_str obj of
             Inl e \<Rightarrow> w
           | Inr obj' \<Rightarrow> w\<lparr>w_frame := mutate_object (w_frame w) obj_name (\<lambda>s. obj')\<rparr>))"
| "execute E (DestroyObject obj_name) w =
     (case get_object_by_name (w_frame w) obj_name of
        None \<Rightarrow> w
      | Some obj \<Rightarrow> w\<lparr>w_frame := remove_object (w_frame w) obj\<rparr>)"
| "execute E (GoToFrame frame_name) w = w\<lparr>ENGINE_CURRENT_FRAME := Some frame_name\<rparr>"
| "execute E (SetCounterValue counter_name v) w =
     (case get_object_by_name (w_frame w) counter_name of
        None \<Rightarrow> w
      | Some c \<Rightarrow>
          (if o_cls c = CounterObject
           then w\<lparr>w_frame := mutate_object (w_frame w) counter_name (set_value E v)\<rparr>
           else w))"

subsection \<open>Events and the frame update\<close>

definition event_run :: "env \<Rightarrow> event \<Rightarrow> world \<Rightarrow> world" where
  "event_run E e w =
     (if list_all (\<lambda>c. check E c w) (ev_conditions e)
      then fold (execute E) (ev_actions e) w
      else w)"

text \<open>
  \<open>EngineObject.update\<close> animates only when \<open>anim_frames\<close> is not empty; the
  constructor sets it to \<open>[]\<close> and nothing assigns it, and the two subclasses override
  \<open>update\<close> with \<open>pass\<close>. The object pass of \<open>Frame.update\<close> therefore changes
  nothing, and the events run in list order on the same frame.
\<close>

definition frame_update :: "env \<Rightarrow> world \<Rightarrow> world" where
  "frame_update E w = fold (event_run E) (events (w_frame w)) w"

text \<open>
  The states on which the events of one \<open>Frame.update\<close> are run, in order: every
  condition of an event is checked on the state the event starts in.
\<close>

fun event_states :: "env \<Rightarrow> event list \<Rightarrow> world \<Rightarrow> world list" where
  "event_states E [] w = []"
| "event_states E (e # es) w = w # event_states E es (event_run E e w)"


subsection \<open>The declarative project\<close>

text \<open>
  \<open>project_data\<close> is built by the editor: a dictionary with a list of frames, each a
  dictionary read with \<open>.get(key, default)\<close> (a missing key is \<open>None\<close> here) and a
  list of events whose conditions and actions are \<open>{"type": ..., "params": {...}}\<close>
  with the parameter values typed into entry fields, hence strings.
\<close>

record ca_data =
  ca_type :: string
  ca_params :: "(string \<times> string) list"

record event_data =
  ed_conditions :: "ca_data list option"
  ed_actions :: "ca_data list option"

record obj_data =
  od_type :: "string option"
  od_name :: "string option"
  od_x :: "int option"
  od_y :: "int option"
  od_w :: "int option"
  od_h :: "int option"
  od_color :: "string option"
  od_text :: "string option"
  od_font_size :: "int option"
  od_initial_value :: "int option"

record frame_data =
  fd_name :: "string option"
  fd_bg_color :: "int list option"
  fd_objects :: "obj_data list option"
  fd_events :: "event_data list option"

record project =
  p_frames :: "frame_data list option"

definition get_or :: "'a \<Rightarrow> 'a option \<Rightarrow> 'a" where
  "get_or d x = (case x of None \<Rightarrow> d | Some v \<Rightarrow> v)"

subsection \<open>The engine\<close>

datatype cond_class = KeyPressed_class | ObjectCollision_class | CompareCounter_class

datatype act_class =
  ChangeObjectColor_class | DestroyObject_class | GoToFrame_class | SetCounterValue_class

text \<open>
  \<open>Frame\<close> objects live in \<open>heap\<close> and are referred to by their index: the
  dictionary \<open>frames\<close> and the attribute \<open>current_frame\<close> hold references to the same
  objects, and a tick mutates the object \<open>current_frame\<close> refers to.
\<close>

record engine =
  heap :: "frame list"
  frames :: "string \<rightharpoonup> nat"
  current_frame :: "nat option"
  running :: bool
  registered_conditions :: "string \<rightharpoonup> cond_class"
  registered_actions :: "string \<rightharpoonup> act_class"
  registered_object_types :: "string \<rightharpoonup> obj_class"

definition new_engine :: engine where
  "new_engine =
     \<lparr>heap = [], frames = Map.empty, current_frame = None, running = True,
      registered_conditions =
        map_of [(''KeyPressed'', KeyPressed_class), (''ObjectCollision'', ObjectCollision_class)]
        ++ map_of [(''CompareCounter'', CompareCounter_class)],
      registered_actions =
        map_of [(''ChangeObjectColor'', ChangeObjectColor_class),
                (''DestroyObject'', DestroyObject_class), (''GoToFrame'', GoToFrame_class)]
        ++ map_of [(''SetCounterValue'', SetCounterValue_class)],
      registered_object_types =
        map_of [(''ActiveObject'', EngineObject), (''TextObject'', TextObject),
                (''CounterObject'', CounterObject)]
        ++ map_of [(''CounterObject'', CounterObject), (''TextObject'', TextObject)]\<rparr>"

text \<open>
  \<open>cls(**param_dict)\<close>: every key must be a parameter of \<open>__init__\<close> and every
  parameter must be given, otherwise \<open>TypeError\<close>.
\<close>

definition bind_kwargs :: "string list \<Rightarrow> (string \<times> string) list \<Rightarrow> error + string list" where
  "bind_kwargs names ps =
     (if list_ex (\<lambda>k. k \<notin> set names) (map fst ps) then Inl TypeError
      else (case those (map (map_of ps) names) of
              None \<Rightarrow> Inl TypeError
            | Some vs \<Rightarrow> Inr vs))"

text \<open>\<open>float(value) if value else 0\<close> of the two counter classes.\<close>

definition to_number :: "env \<Rightarrow> string \<Rightarrow> error + pynum" where
  "to_number E v =
     (if v = [] then Inr (PInt 0)
      else (case float_of E v of None \<Rightarrow> Inl ValueError | Some r \<Rightarrow> Inr (PFloat r)))"

definition build_condition :: "env \<Rightarrow> cond_class \<Rightarrow> (string \<times> string) list \<Rightarrow> error + condition" where
  "build_condition E cls ps =
     (case cls of
        KeyPressed_class \<Rightarrow>
          (case bind_kwargs [''key''] ps of
             Inr [k] \<Rightarrow> Inr (KeyPressed k)
           | Inr _ \<Rightarrow> Inl TypeError
           | Inl e \<Rightarrow> Inl e)
      | ObjectCollision_class \<Rightarrow>
          (case bind_kwargs [''obj_a'', ''obj_b''] ps of
             Inr [a, b] \<Rightarrow> Inr (ObjectCollision a b)
           | Inr _ \<Rightarrow> Inl TypeError
           | Inl e \<Rightarrow> Inl e)
      | CompareCounter_class \<Rightarrow>
          (case bind_kwargs [''counter_name'', ''operator'', ''value''] ps of
             Inr [n, opr, v] \<Rightarrow>
               (case to_number E v of Inl e \<Rightarrow> Inl e | Inr x \<Rightarrow> Inr (CompareCounter n opr x))
           | Inr _ \<Rightarrow> Inl TypeError
           | Inl e \<Rightarrow> Inl e))"

definition build_action :: "env \<Rightarrow> act_class \<Rightarrow> (string \<times> string) list \<Rightarrow> error + action" where
  "build_action E cls ps =
     (case cls of
        ChangeObjectColor_class \<Rightarrow>
          (case bind_kwargs [''obj_name'', ''color_str''] ps of
             Inr [n, c] \<Rightarrow> Inr (ChangeObjectColor n c)
           | Inr _ \<Rightarrow> Inl TypeError
           | Inl e \<Rightarrow> Inl e)
      | DestroyObject_class \<Rightarrow>
          (case bind_kwargs [''obj_name''] ps of
             Inr [n] \<Rightarrow> Inr (DestroyObject n)
           | Inr _ \<Rightarrow> Inl TypeError
           | Inl e \<Rightarrow> Inl e)
      | GoToFrame_class \<Rightarrow>
          (case bind_kwargs [''frame_name''] ps of
             Inr [n] \<Rightarrow> Inr (GoToFrame n)
           | Inr _ \<Rightarrow> Inl TypeError
           | Inl e \<Rightarrow> Inl e)
      | SetCounterValue_class \<Rightarrow>
          (case bind_kwargs [''counter_name'', ''value''] ps of
             Inr [n, v] \<Rightarrow>
               (case to_number E v of Inl e \<Rightarrow> Inl e | Inr x \<Rightarrow> Inr (SetCounterValue n x))
           | Inr _ \<Rightarrow> Inl TypeError
           | Inl e \<Rightarrow> Inl e))"

text \<open>
  The two \<open>for\<close> statements of \<open>load_project\<close> over the conditions and the actions of
  one event: an
  entry whose type is not in the registry is passed over, an exception of a constructor
  leaves the whole load.
\<close>

fun load_conditions :: "env \<Rightarrow> (string \<rightharpoonup> cond_class) \<Rightarrow> ca_data list \<Rightarrow> error + condition list" where
  "load_conditions E reg [] = Inr []"
| "load_conditions E reg (c_data # rest) =
     (case reg (ca_type c_data) of
        None \<Rightarrow> load_conditions E reg rest
      | Some cond_class \<Rightarrow>
          (case build_condition E cond_class (ca_params c_data) of
             Inl e \<Rightarrow> Inl e
           | Inr cond \<Rightarrow>
               (case load_conditions E reg rest of
                  Inl e \<Rightarrow> Inl e
                | Inr cond_list \<Rightarrow> Inr (cond # cond_list))))"

fun load_actions :: "env \<Rightarrow> (string \<rightharpoonup> act_class) \<Rightarrow> ca_data list \<Rightarrow> error + action list" where
  "load_actions E reg [] = Inr []"
| "load_actions E reg (a_data # rest) =
     (case reg (ca_type a_data) of
        None \<Rightarrow> load_actions E reg rest
      | Some act_class \<Rightarrow>
          (case build_action E act_class (ca_params a_data) of
             Inl e \<Rightarrow> Inl e
           | Inr act \<Rightarrow>
               (case load_actions E reg rest of
                  Inl e \<Rightarrow> Inl e
                | Inr act_list \<Rightarrow> Inr (act # act_list))))"

definition load_event :: "env \<Rightarrow> engine \<Rightarrow> event_data \<Rightarrow> error + event" where
  "load_event E eng evt_data =
     (case load_conditions E (registered_conditions eng) (get_or [] (ed_conditions evt_data)) of
        Inl e \<Rightarrow> Inl e
      | Inr cond_list \<Rightarrow>
          (case load_actions E (registered_actions eng) (get_or [] (ed_actions evt_data)) of
             Inl e \<Rightarrow> Inl e
           | Inr act_list \<Rightarrow> Inr \<lparr>ev_conditions = cond_list, ev_actions = act_list\<rparr>))"

fun load_events :: "env \<Rightarrow> engine \<Rightarrow> event_data list \<Rightarrow> error + event list" where
  "load_events E eng [] = Inr []"
| "load_events E eng (evt_data # rest) =
     (case load_event E eng evt_data of
        Inl e \<Rightarrow> Inl e
      | Inr ev \<Rightarrow>
          (case load_events E eng rest of
             Inl e \<Rightarrow> Inl e
           | Inr evs \<Rightarrow> Inr (ev # evs)))"

text \<open>
  The three constructors. \<open>eval(col)\<close> is an argument of each; the text classes
  pass the fixed size 10 by 10 to \<open>pygame.Surface\<close> and then render with their font.
  Whatever raises here leaves \<open>load_project\<close>.
\<close>

definition load_object :: "env \<Rightarrow> engine \<Rightarrow> obj_data \<Rightarrow> error + engine_obj" where
  "load_object E eng o_data =
     (let cls = get_or EngineObject
                  (registered_object_types eng (get_or ''ActiveObject'' (od_type o_data)));
          name = get_or ''Obj'' (od_name o_data);
          x = get_or 100 (od_x o_data);
          y = get_or 100 (od_y o_data);
          w = get_or 50 (od_w o_data);
          h = get_or 50 (od_h o_data);
          col = get_or ''(255,0,0)'' (od_color o_data);
          text = get_or ''Hello'' (od_text o_data);
          font_size = get_or 24 (od_font_size o_data);
          initial_value = get_or 0 (od_initial_value o_data)
      in case eval_ctor E col of
           None \<Rightarrow> Inl ObjectError
         | Some c \<Rightarrow>
             (case cls of
                TextObject \<Rightarrow>
                  if surface_ok E 10 10 \<and> font_ok E font_size
                  then Inr \<lparr>o_cls = TextObject, o_name = name, o_x = x, o_y = y,
                            o_width = 10, o_height = 10, o_color = c,
                            o_image = TextRender text c,
                            o_rect = (x, y, fst (text_size E text font_size),
                                      snd (text_size E text font_size)),
                            o_text = text, o_font_size = font_size, o_value = PInt 0\<rparr>
                  else Inl ObjectError
              | CounterObject \<Rightarrow>
                  if surface_ok E 10 10 \<and> font_ok E font_size
                  then Inr \<lparr>o_cls = CounterObject, o_name = name, o_x = x, o_y = y,
                            o_width = 10, o_height = 10, o_color = c,
                            o_image = NumRender (PInt initial_value) c,
                            o_rect = (x, y, fst (num_size E (PInt initial_value) font_size),
                                      snd (num_size E (PInt initial_value) font_size)),
                            o_text = [], o_font_size = font_size,
                            o_value = PInt initial_value\<rparr>
                  else Inl ObjectError
              | EngineObject \<Rightarrow>
                  if \<not> surface_ok E w h then Inl ObjectError
                  else Inr \<lparr>o_cls = EngineObject, o_name = name, o_x = x, o_y = y,
                            o_width = w, o_height = h, o_color = c,
                            o_image = Filled c, o_rect = (x, y, w, h),
                            o_text = [], o_font_size = 0, o_value = PInt 0\<rparr>))"

fun load_objects :: "env \<Rightarrow> engine \<Rightarrow> obj_data list \<Rightarrow> error + engine_obj list" where
  "load_objects E eng [] = Inr []"
| "load_objects E eng (o_data # rest) =
     (case load_object E eng o_data of
        Inl e \<Rightarrow> Inl e
      | Inr obj \<Rightarrow>
          (case load_objects E eng rest of
             Inl e \<Rightarrow> Inl e
           | Inr objs \<Rightarrow> Inr (obj # objs)))"

definition load_frame :: "env \<Rightarrow> engine \<Rightarrow> frame_data \<Rightarrow> error + frame" where
  "load_frame E eng frame_data =
     (case load_objects E eng (get_or [] (fd_objects frame_data)) of
        Inl e \<Rightarrow> Inl e
      | Inr objs \<Rightarrow>
          (case load_events E eng (get_or [] (fd_events frame_data)) of
             Inl e \<Rightarrow> Inl e
           | Inr evs \<Rightarrow>
               Inr \<lparr>f_name = get_or ''Unnamed'' (fd_name frame_data),
                    bg_color = get_or [0, 0, 0] (fd_bg_color frame_data),
                    objects = objs, events = evs\<rparr>))"

text \<open>
  \<open>self.frames[fname] = f\<close> for each frame in turn: the new \<open>Frame\<close> object is
  allocated at the end of the heap and the dictionary entry refers to it.
\<close>

fun load_frames :: "env \<Rightarrow> engine \<Rightarrow> frame_data list \<Rightarrow> error + engine" where
  "load_frames E eng [] = Inr eng"
| "load_frames E eng (frame_data # rest) =
     (case load_frame E eng frame_data of
        Inl e \<Rightarrow> Inl e
      | Inr f \<Rightarrow>
          load_frames E
            (eng\<lparr>heap := heap eng @ [f],
                 frames := (frames eng)(f_name f \<mapsto> length (heap eng))\<rparr>)
            rest)"

definition load_project :: "env \<Rightarrow> engine \<Rightarrow> project \<Rightarrow> error + engine" where
  "load_project E eng data = load_frames E eng (get_or [] (p_frames data))"

definition change_frame :: "string \<Rightarrow> engine \<Rightarrow> engine" where
  "change_frame frame_name eng =
     (case frames eng frame_name of
        None \<Rightarrow> eng
      | Some a \<Rightarrow> eng\<lparr>current_frame := Some a\<rparr>)"

subsection \<open>The main loop\<close>

text \<open>
  The state of a run: the engine, the module global, pygame's key array and what was
  last drawn. One iteration receives what \<open>pygame.event.get()\<close> delivers: whether a
  \<open>QUIT\<close> event was in the queue, and the key array as the event pump leaves it.
\<close>

record runtime =
  rt_engine :: engine
  rt_global :: "string option"
  rt_keys :: "nat \<Rightarrow> bool option"
  rt_screen :: "frame option"

record pump =
  quit :: bool
  keys_now :: "nat \<Rightarrow> bool option"

definition event_get :: "pump \<Rightarrow> runtime \<Rightarrow> runtime" where
  "event_get inp rt =
     rt\<lparr>rt_keys := keys_now inp,
        rt_engine := (if quit inp then (rt_engine rt)\<lparr>running := False\<rparr> else rt_engine rt)\<rparr>"

text \<open>
  \<open>if ENGINE_CURRENT_FRAME and self.current_frame and
  ENGINE_CURRENT_FRAME != self.current_frame.name\<close>: a string is true when it is not
  empty, a \<open>Frame\<close> when it is not \<open>None\<close>.
\<close>

definition jump_frames :: "runtime \<Rightarrow> runtime" where
  "jump_frames rt =
     (case rt_global rt of
        None \<Rightarrow> rt
      | Some n \<Rightarrow>
          (case current_frame (rt_engine rt) of
             None \<Rightarrow> rt
           | Some a \<Rightarrow>
               if n \<noteq> [] \<and> n \<noteq> f_name (heap (rt_engine rt) ! a)
               then rt\<lparr>rt_engine := change_frame n (rt_engine rt), rt_global := None\<rparr>
               else rt))"

definition tick_world :: "runtime \<Rightarrow> nat \<Rightarrow> world" where
  "tick_world rt a =
     \<lparr>w_frame = heap (rt_engine rt) ! a,
      ENGINE_CURRENT_FRAME = rt_global rt,
      key_array = rt_keys rt\<rparr>"

definition update_and_draw :: "env \<Rightarrow> runtime \<Rightarrow> runtime" where
  "update_and_draw E rt =
     (case current_frame (rt_engine rt) of
        None \<Rightarrow> rt
      | Some a \<Rightarrow>
          (let w = frame_update E (tick_world rt a)
           in rt\<lparr>rt_engine := (rt_engine rt)\<lparr>heap := (heap (rt_engine rt))[a := w_frame w]\<rparr>,
                 rt_global := ENGINE_CURRENT_FRAME w,
                 rt_keys := key_array w,
                 rt_screen := Some (w_frame w)\<rparr>))"

definition loop_iteration :: "env \<Rightarrow> pump \<Rightarrow> runtime \<Rightarrow> runtime" where
  "loop_iteration E inp rt = update_and_draw E (jump_frames (event_get inp rt))"

text \<open>
  \<open>while self.running\<close>, run on the inputs of finitely many iterations: the loop
  itself ends only with a \<open>QUIT\<close> event.
\<close>

fun main_loop :: "env \<Rightarrow> pump list \<Rightarrow> runtime \<Rightarrow> runtime" where
  "main_loop E [] rt = rt"
| "main_loop E (inp # inps) rt =
     (if running (rt_engine rt) then main_loop E inps (loop_iteration E inp rt) else rt)"

text \<open>Python's truth value of the global: \<open>None\<close> and the empty string are false.\<close>

definition truthy :: "string option \<Rightarrow> bool" where
  "truthy p = (case p of None \<Rightarrow> False | Some n \<Rightarrow> n \<noteq> [])"

text \<open>
  \<open>run_game\<close> of the editor: a new engine, the project loaded, the start frame
  activated, the loop run. The module global keeps the value the previous run left.
\<close>

definition run_game ::
    "env \<Rightarrow> project \<Rightarrow> string option \<Rightarrow> string option \<Rightarrow> pump list \<Rightarrow> error + runtime" where
  "run_game E data start_frame global inps =
     (case load_project E new_engine data of
        Inl e \<Rightarrow> Inl e
      | Inr eng \<Rightarrow>
          Inr (main_loop E inps
                 \<lparr>rt_engine = (case start_frame of
                                 None \<Rightarrow> eng
                               | Some n \<Rightarrow> if n \<noteq> [] then change_frame n eng else eng),
                  rt_global = global, rt_keys = (\<lambda>i. None), rt_screen = None\<rparr>))"

text \<open>
  What the engine relies on between the dictionary, the heap and \<open>current_frame\<close>:
  every entry of \<open>frames\<close> refers to a frame of the heap that carries the entry's key
  as its name, and \<open>current_frame\<close> is one of the entries.
\<close>

definition wf_engine :: "engine \<Rightarrow> bool" where
  "wf_engine eng \<longleftrightarrow>
     (\<forall>n a. frames eng n = Some a \<longrightarrow> a < length (heap eng) \<and> f_name (heap eng ! a) = n) \<and>
     (\<forall>a. current_frame eng = Some a \<longrightarrow> (\<exists>n. frames eng n = Some a))"

subsection \<open>Registered and unregistered entries\<close>








text \<open>
  A project is constructible when each of its objects constructs and each entry with a
  registered type name has parameters its constructor accepts.
\<close>

definition succeeds :: "error + 'a \<Rightarrow> bool" where
  "succeeds r = (case r of Inl e \<Rightarrow> False | Inr v \<Rightarrow> True)"







subsection \<open>The six operators\<close>

text \<open>The relation each of the six operator names stands for.\<close>

definition op_relation :: "string \<Rightarrow> (rat \<Rightarrow> rat \<Rightarrow> bool) option" where
  "op_relation =
     map_of [(''=='', (=)), (''!='', (\<noteq>)), (''<'', (<)), (''<='', (\<le>)), (''>'', (>)),
             (''>='', (\<ge>))]"

section \<open>The project file of the editor in enginev0.py\<close>

text \<open>
  The editor keeps the project as the dictionary \<open>project_data\<close>, the value
  \<open>json.load\<close> returned, and writes that dictionary back with \<open>json.dump\<close>. A file
  is modelled by the JSON value its text denotes. The engine's \<open>load_project\<close> reads
  \<open>project_data\<close> with \<open>.get\<close> and indexing only and builds its frames aside.
\<close>

datatype json =
    JNull
  | JBool bool
  | JNum rat
  | JStr string
  | JArr "json list"
  | JObj "(string \<times> json) list"







section \<open>A sample environment and sample scenes\<close>

text \<open>
  One concrete environment, used to run the definitions on explicit inputs: the key
  \<open>K_SPACE\<close> has index 32, \<open>KMOD_MODE\<close> is a number beyond the key array, three
  colour literals evaluate, \<open>float\<close> reads two literals, surfaces have no negative
  side, fonts of positive size exist, rendered text is one font size high, and
  rectangles collide when they overlap.
\<close>

definition demo_env :: env where
  "demo_env =
     \<lparr>attr_key = (\<lambda>k. if k = ''K_SPACE'' then Some 32
                       else if k = ''KMOD_MODE'' then Some 16384 else None),
      eval_fill = (\<lambda>s. if s = ''(0,255,0)'' then Some [0, 255, 0] else None),
      eval_ctor = (\<lambda>s. if s = ''(255,0,0)'' then Some [255, 0, 0]
                        else if s = ''(255,255,255)'' then Some [255, 255, 255] else None),
      float_of = (\<lambda>s. if s = ''10'' then Some 10 else if s = ''5'' then Some 5 else None),
      surface_ok = (\<lambda>w h. 0 \<le> w \<and> 0 \<le> h),
      font_ok = (\<lambda>n. 0 < n),
      text_size = (\<lambda>s n. (int (length s) * n, n)),
      num_size = (\<lambda>v n. (n, n)),
      colliderect = (\<lambda>(ax, ay, aw, ah) (bx, by, bw, bh).
                       ax < bx + bw \<and> bx < ax + aw \<and> ay < by + bh \<and> by < ay + ah)\<rparr>"

definition counter_obj :: "string \<Rightarrow> int \<Rightarrow> engine_obj" where
  "counter_obj n v =
     \<lparr>o_cls = CounterObject, o_name = n, o_x = 0, o_y = 0, o_width = 10, o_height = 10,
      o_color = [255, 255, 255], o_image = NumRender (PInt v) [255, 255, 255],
      o_rect = (0, 0, 24, 24), o_text = [], o_font_size = 24, o_value = PInt v\<rparr>"

definition active_obj :: "string \<Rightarrow> int \<Rightarrow> int \<Rightarrow> engine_obj" where
  "active_obj n x y =
     \<lparr>o_cls = EngineObject, o_name = n, o_x = x, o_y = y, o_width = 50, o_height = 50,
      o_color = [255, 0, 0], o_image = Filled [255, 0, 0],
      o_rect = (x, y, 50, 50), o_text = [], o_font_size = 0, o_value = PInt 0\<rparr>"

definition score_event :: event where
  "score_event =
     \<lparr>ev_conditions = [CompareCounter ''Score'' ''=='' (PFloat 5)],
      ev_actions = [SetCounterValue ''Score'' (PFloat 10), GoToFrame ''Level1'']\<rparr>"

definition no_keys :: "nat \<Rightarrow> bool option" where
  "no_keys i = (if i < 512 then Some False else None)"

definition space_down :: "nat \<Rightarrow> bool option" where
  "space_down i = (if i < 512 then Some (i = 32) else None)"

definition score_world :: "int \<Rightarrow> world" where
  "score_world v =
     \<lparr>w_frame = \<lparr>f_name = ''Menu'', bg_color = [40, 40, 40],
                 objects = [counter_obj ''Score'' v], events = [score_event]\<rparr>,
      ENGINE_CURRENT_FRAME = None, key_array = no_keys\<rparr>"

definition hit_event :: event where
  "hit_event =
     \<lparr>ev_conditions = [ObjectCollision ''Ball'' ''Wall''],
      ev_actions = [DestroyObject ''Ball'', SetCounterValue ''Score'' (PFloat 10)]\<rparr>"

definition space_event :: "string \<Rightarrow> event" where
  "space_event target =
     \<lparr>ev_conditions = [KeyPressed ''K_SPACE''], ev_actions = [GoToFrame target]\<rparr>"

definition menu_frame :: frame where
  "menu_frame =
     \<lparr>f_name = ''Menu'', bg_color = [40, 40, 40],
      objects = [counter_obj ''Score'' 5, active_obj ''Ball'' 0 0, active_obj ''Wall'' 20 20],
      events = [hit_event, space_event ''Level1'']\<rparr>"

definition level_frame :: frame where
  "level_frame =
     \<lparr>f_name = ''Level1'', bg_color = [80, 80, 220],
      objects = [active_obj ''Player'' 5 5],
      events = [space_event ''Menu'']\<rparr>"

definition demo_rt :: "string option \<Rightarrow> runtime" where
  "demo_rt pending =
     \<lparr>rt_engine = new_engine\<lparr>heap := [menu_frame, level_frame],
                               frames := map_of [(''Menu'', 0), (''Level1'', 1)],
                               current_frame := Some 0\<rparr>,
      rt_global = pending, rt_keys = no_keys, rt_screen = None\<rparr>"

definition space_pump :: pump where
  "space_pump = \<lparr>quit = False, keys_now = space_down\<rparr>"

definition idle_pump :: pump where
  "idle_pump = \<lparr>quit = False, keys_now = no_keys\<rparr>"

text \<open>The menu after its first tick: the ball is gone and the score is 10.0.\<close>

definition menu_after :: frame where
  "menu_after =
     menu_frame\<lparr>objects :=
       [(counter_obj ''Score'' 5)\<lparr>o_value := PFloat 10,
                                   o_image := NumRender (PFloat 10) [255, 255, 255]\<rparr>,
        active_obj ''Wall'' 20 20]\<rparr>"

definition menu_world :: world where
  "menu_world = \<lparr>w_frame = menu_frame, ENGINE_CURRENT_FRAME = None, key_array = space_down\<rparr>"








text \<open>Two scenes in which two objects carry the same name.\<close>

definition twin_score_world :: world where
  "twin_score_world =
     \<lparr>w_frame = \<lparr>f_name = ''Menu'', bg_color = [40, 40, 40],
                 objects = [active_obj ''Score'' 0 0, counter_obj ''Score'' 10],
                 events = []\<rparr>,
      ENGINE_CURRENT_FRAME = None, key_array = no_keys\<rparr>"

definition twin_ball_world :: world where
  "twin_ball_world =
     \<lparr>w_frame = \<lparr>f_name = ''Menu'', bg_color = [40, 40, 40],
                 objects = [active_obj ''Ball'' 200 200, active_obj ''Ball'' 10 10,
                            active_obj ''Wall'' 20 20],
                 events = []\<rparr>,
      ENGINE_CURRENT_FRAME = None, key_array = no_keys\<rparr>"

section \<open>Theorems\<close>

subsection \<open>Looking objects up by name\<close>

lemma get_object_by_name_None:
  "get_object_by_name f n = None \<longleftrightarrow> n \<notin> o_name ` set (objects f)"
  by (auto simp: get_object_by_name_def find_None_iff)

lemma get_object_by_name_Some:
  "get_object_by_name f n = Some obj \<Longrightarrow> obj \<in> set (objects f) \<and> o_name obj = n"
  by (auto simp: get_object_by_name_def find_Some_iff)

lemma get_object_by_name_unique:
  assumes "distinct (map o_name (objects f))" "obj \<in> set (objects f)"
  shows "get_object_by_name f (o_name obj) = Some obj"
proof -
  have "o_name obj \<in> o_name ` set (objects f)" using assms(2) by simp
  then obtain x where x: "get_object_by_name f (o_name obj) = Some x"
    using get_object_by_name_None [of f "o_name obj"]
    by (cases "get_object_by_name f (o_name obj)") auto
  then have "x \<in> set (objects f)" "o_name x = o_name obj"
    using get_object_by_name_Some by blast+
  with assms have "x = obj"
    by (meson distinct_map inj_onD)
  with x show ?thesis by simp
qed

subsection \<open>What no action changes\<close>

text \<open>No action adds an object or renames one: the set of names can only shrink.\<close>

lemma update_first_names:
  "(\<And>x. P x \<Longrightarrow> o_name (g x) = o_name x) \<Longrightarrow>
     map o_name (update_first P g xs) = map o_name xs"
  by (induction xs) auto

lemma fill_image_name: "fill_image E s obj = Inr obj' \<Longrightarrow> o_name obj' = o_name obj"
  by (auto simp: fill_image_def split: option.splits)

lemma set_value_name: "o_name (set_value E v c) = o_name c"
  by (simp add: set_value_def split: prod.splits)

lemma execute_names:
  "o_name ` set (objects (w_frame (execute E a w))) \<subseteq> o_name ` set (objects (w_frame w))"
proof (cases a)
  case (ChangeObjectColor n s)
  show ?thesis
  proof (cases "get_object_by_name (w_frame w) n")
    case None
    with ChangeObjectColor show ?thesis by simp
  next
    case (Some obj)
    show ?thesis
    proof (cases "fill_image E s obj")
      case (Inl e)
      with ChangeObjectColor Some show ?thesis by simp
    next
      case (Inr obj')
      from Some have "o_name obj = n" by (rule get_object_by_name_Some [THEN conjunct2])
      with Inr have "o_name obj' = n" using fill_image_name by blast
      then have "map o_name (update_first (\<lambda>s. o_name s = n) (\<lambda>s. obj') (objects (w_frame w)))
                   = map o_name (objects (w_frame w))"
        by (intro update_first_names) simp
      then have "o_name ` set (update_first (\<lambda>s. o_name s = n) (\<lambda>s. obj') (objects (w_frame w)))
                   = o_name ` set (objects (w_frame w))"
        by (metis set_map)
      with ChangeObjectColor Some Inr show ?thesis
        by (simp add: mutate_object_def)
    qed
  qed
next
  case (DestroyObject n)
  then show ?thesis
    using set_remove1_subset by (fastforce simp: remove_object_def split: option.splits)
next
  case (GoToFrame n)
  then show ?thesis by simp
next
  case (SetCounterValue n v)
  then show ?thesis
    by (auto simp: mutate_object_def update_first_names set_value_name
        simp flip: set_map split: option.splits)
qed

lemma fold_execute_names:
  "o_name ` set (objects (w_frame (fold (execute E) acts w)))
     \<subseteq> o_name ` set (objects (w_frame w))"
proof (induction acts arbitrary: w)
  case Nil
  then show ?case by simp
next
  case (Cons a acts)
  have "o_name ` set (objects (w_frame (fold (execute E) acts (execute E a w))))
          \<subseteq> o_name ` set (objects (w_frame (execute E a w)))"
    by (rule Cons.IH)
  also have "\<dots> \<subseteq> o_name ` set (objects (w_frame w))"
    by (rule execute_names)
  finally show ?case by simp
qed

lemma event_run_names:
  "o_name ` set (objects (w_frame (event_run E e w))) \<subseteq> o_name ` set (objects (w_frame w))"
  by (simp add: event_run_def fold_execute_names)

lemma fold_event_run_names:
  "o_name ` set (objects (w_frame (fold (event_run E) evs w)))
     \<subseteq> o_name ` set (objects (w_frame w))"
proof (induction evs arbitrary: w)
  case Nil
  then show ?case by simp
next
  case (Cons e evs)
  have "o_name ` set (objects (w_frame (fold (event_run E) evs (event_run E e w))))
          \<subseteq> o_name ` set (objects (w_frame (event_run E e w)))"
    by (rule Cons.IH)
  also have "\<dots> \<subseteq> o_name ` set (objects (w_frame w))"
    by (rule event_run_names)
  finally show ?case by simp
qed


text \<open>No action renames the frame or touches the key array.\<close>

lemma execute_f_name: "f_name (w_frame (execute E a w)) = f_name (w_frame w)"
  by (cases a) (auto simp: mutate_object_def remove_object_def split: option.splits sum.splits)

lemma fold_execute_f_name: "f_name (w_frame (fold (execute E) acts w)) = f_name (w_frame w)"
  by (induction acts arbitrary: w) (auto simp: execute_f_name)

lemma event_run_f_name: "f_name (w_frame (event_run E e w)) = f_name (w_frame w)"
  by (simp add: event_run_def fold_execute_f_name)

lemma fold_event_run_f_name:
  "f_name (w_frame (fold (event_run E) evs w)) = f_name (w_frame w)"
  by (induction evs arbitrary: w) (auto simp: event_run_f_name)

lemma frame_update_f_name: "f_name (w_frame (frame_update E w)) = f_name (w_frame w)"
  by (simp add: frame_update_def fold_event_run_f_name)





text \<open>The frame update ends in the state after the last event of the list.\<close>

lemma frame_update_states:
  "fold (event_run E) es w =
     last (w # map (\<lambda>(e, s). event_run E e s) (zip es (event_states E es w)))"
  by (induction es arbitrary: w) auto

subsection \<open>Evaluating the sample scenes\<close>

lemmas scene_defs =
  menu_world_def menu_frame_def level_frame_def hit_event_def space_event_def
  active_obj_def counter_obj_def space_down_def no_keys_def menu_after_def

lemmas step_defs =
  get_object_by_name_def remove_object_def mutate_object_def set_value_def
  event_run_def frame_update_def compare_def key_lookup_def fill_image_def

lemma first_tick:
  "loop_iteration demo_env space_pump (demo_rt None) =
     \<lparr>rt_engine = new_engine\<lparr>heap := [menu_after, level_frame],
                               frames := map_of [(''Menu'', 0), (''Level1'', 1)],
                               current_frame := Some 0\<rparr>,
      rt_global = Some ''Level1'', rt_keys = space_down, rt_screen = Some menu_after\<rparr>"
  by (simp add: loop_iteration_def event_get_def jump_frames_def update_and_draw_def
      tick_world_def demo_rt_def space_pump_def demo_env_def scene_defs step_defs)

lemma demo_frames_cases:
  "map_of [(''Menu'', 0::nat), (''Level1'', 1)] n = Some a \<Longrightarrow>
     (n = ''Menu'' \<and> a = 0) \<or> (n = ''Level1'' \<and> a = 1)"
  by (cases "n = ''Menu''"; cases "n = ''Level1''") simp_all

lemma wf_demo: "wf_engine (rt_engine (demo_rt p))"
proof -
  have "\<And>n a. frames (rt_engine (demo_rt p)) n = Some a \<Longrightarrow>
          a < length (heap (rt_engine (demo_rt p))) \<and>
          f_name (heap (rt_engine (demo_rt p)) ! a) = n"
  proof -
    fix n a
    assume "frames (rt_engine (demo_rt p)) n = Some a"
    then have "map_of [(''Menu'', 0::nat), (''Level1'', 1)] n = Some a"
      by (simp add: demo_rt_def)
    then have "(n = ''Menu'' \<and> a = 0) \<or> (n = ''Level1'' \<and> a = 1)"
      by (rule demo_frames_cases)
    then show "a < length (heap (rt_engine (demo_rt p))) \<and>
               f_name (heap (rt_engine (demo_rt p)) ! a) = n"
      by (auto simp: demo_rt_def menu_frame_def level_frame_def)
  qed
  moreover have "frames (rt_engine (demo_rt p)) ''Menu'' = Some 0"
    by (simp add: demo_rt_def)
  moreover have "current_frame (rt_engine (demo_rt p)) = Some 0"
    by (simp add: demo_rt_def)
  ultimately show ?thesis
    unfolding wf_engine_def by (metis option.inject)
qed

subsection \<open>Events\<close>

text \<open>
  C1. Running an event executes its actions one after the other in the order of the
  list, each on the state the previous one left, when every condition of the event
  checks true on the state the event is run on; when some condition checks false, no
  action is executed and the state (frame and pending frame name) is the one before.
\<close>

theorem event_run_all_or_nothing:
  "((\<forall>c \<in> set (ev_conditions e). check E c w) \<longrightarrow>
      event_run E e w = fold (execute E) (ev_actions e) w) \<and>
   ((\<exists>c \<in> set (ev_conditions e). \<not> check E c w) \<longrightarrow> event_run E e w = w)"
  by (auto simp: event_run_def list_all_iff)

theorem event_run_all_or_nothing_witness:
  "check demo_env (CompareCounter ''Score'' ''=='' (PFloat 5)) (score_world 5) \<and>
   event_run demo_env score_event (score_world 5) =
     execute demo_env (GoToFrame ''Level1'')
       (execute demo_env (SetCounterValue ''Score'' (PFloat 10)) (score_world 5)) \<and>
   \<not> check demo_env (CompareCounter ''Score'' ''=='' (PFloat 5)) (score_world 7) \<and>
   event_run demo_env score_event (score_world 7) = score_world 7"
proof -
  have fires: "check demo_env (CompareCounter ''Score'' ''=='' (PFloat 5)) (score_world 5)"
    by (simp add: score_world_def counter_obj_def get_object_by_name_def compare_def)
  have blocked: "\<not> check demo_env (CompareCounter ''Score'' ''=='' (PFloat 5)) (score_world 7)"
    by (simp add: score_world_def counter_obj_def get_object_by_name_def compare_def)
  from event_run_all_or_nothing [of score_event demo_env "score_world 5"] fires
  have "event_run demo_env score_event (score_world 5) =
          fold (execute demo_env) (ev_actions score_event) (score_world 5)"
    by (simp add: score_event_def)
  moreover from event_run_all_or_nothing [of score_event demo_env "score_world 7"] blocked
  have "event_run demo_env score_event (score_world 7) = score_world 7"
    by (simp add: score_event_def)
  ultimately show ?thesis
    using fires blocked by (simp add: score_event_def)
qed

subsection \<open>Counter comparison\<close>

lemma compare_op_relation:
  "op_relation opr = Some R \<Longrightarrow> compare opr a b = R (num_val a) (num_val b)"
  by (auto simp: op_relation_def compare_def split: if_splits)

text \<open>
  C3, as stated: \<open>CompareCounter(N, op, v)\<close> is true exactly when the frame has a
  counter named \<open>N\<close> whose value stands in relation \<open>op\<close> to \<open>v\<close>. It fails in a
  frame where an object that is no counter comes before a counter of the same name:
  the counter \<open>Score\<close> with value 10 is there, and \<open>Score >= 10\<close> checks false.
\<close>

theorem compare_counter_twin_counterexample:
  "counter_obj ''Score'' 10 \<in> set (objects (w_frame twin_score_world)) \<and>
   o_name (counter_obj ''Score'' 10) = ''Score'' \<and>
   o_cls (counter_obj ''Score'' 10) = CounterObject \<and>
   num_val (o_value (counter_obj ''Score'' 10)) \<ge> num_val (PFloat 10) \<and>
   \<not> check demo_env (CompareCounter ''Score'' ''>='' (PFloat 10)) twin_score_world"
  by (simp add: twin_score_world_def active_obj_def counter_obj_def get_object_by_name_def)

text \<open>
  C3, amended. For each of the six operators, \<open>CompareCounter(N, op, v)\<close> is true
  exactly when the first object named \<open>N\<close> in the frame, the one
  \<open>get_object_by_name\<close> returns, is a counter whose value stands in relation \<open>op\<close> to
  \<open>v\<close>; it is false when there is no object named \<open>N\<close> or that object is no
  counter. In a frame whose object names are unique this is: exactly when a counter
  named \<open>N\<close> exists and its value stands in relation \<open>op\<close> to \<open>v\<close>.
\<close>

theorem compare_counter_first_object:
  "(op_relation opr = Some R \<longrightarrow>
      check E (CompareCounter n opr v) w =
        (\<exists>c. get_object_by_name (w_frame w) n = Some c \<and> o_cls c = CounterObject \<and>
             R (num_val (o_value c)) (num_val v))) \<and>
   (op_relation opr = Some R \<and> distinct (map o_name (objects (w_frame w))) \<longrightarrow>
      check E (CompareCounter n opr v) w =
        (\<exists>c \<in> set (objects (w_frame w)).
           o_name c = n \<and> o_cls c = CounterObject \<and> R (num_val (o_value c)) (num_val v)))"
proof (intro conjI impI)
  assume r: "op_relation opr = Some R"
  then show "check E (CompareCounter n opr v) w =
        (\<exists>c. get_object_by_name (w_frame w) n = Some c \<and> o_cls c = CounterObject \<and>
             R (num_val (o_value c)) (num_val v))"
    by (auto simp: compare_op_relation split: option.splits)
next
  assume "op_relation opr = Some R \<and> distinct (map o_name (objects (w_frame w)))"
  then have r: "op_relation opr = Some R" and d: "distinct (map o_name (objects (w_frame w)))"
    by simp_all
  have "(\<exists>c. get_object_by_name (w_frame w) n = Some c \<and> o_cls c = CounterObject \<and>
             R (num_val (o_value c)) (num_val v)) =
        (\<exists>c \<in> set (objects (w_frame w)).
           o_name c = n \<and> o_cls c = CounterObject \<and> R (num_val (o_value c)) (num_val v))"
    using d get_object_by_name_unique get_object_by_name_Some by blast
  with r show "check E (CompareCounter n opr v) w =
        (\<exists>c \<in> set (objects (w_frame w)).
           o_name c = n \<and> o_cls c = CounterObject \<and> R (num_val (o_value c)) (num_val v))"
    by (auto simp: compare_op_relation split: option.splits)
qed

theorem compare_counter_first_object_witness:
  "op_relation ''=='' = Some (=) \<and>
   distinct (map o_name (objects (w_frame menu_world))) \<and>
   check demo_env (CompareCounter ''Score'' ''=='' (PFloat 5)) menu_world =
     (\<exists>c \<in> set (objects (w_frame menu_world)).
        o_name c = ''Score'' \<and> o_cls c = CounterObject \<and>
        num_val (o_value c) = num_val (PFloat 5)) \<and>
   check demo_env (CompareCounter ''Score'' ''=='' (PFloat 5)) menu_world \<and>
   op_relation ''>='' = Some (\<ge>) \<and>
   get_object_by_name (w_frame twin_score_world) ''Score'' = Some (active_obj ''Score'' 0 0) \<and>
   check demo_env (CompareCounter ''Score'' ''>='' (PFloat 10)) twin_score_world =
     (\<exists>c. get_object_by_name (w_frame twin_score_world) ''Score'' = Some c \<and>
          o_cls c = CounterObject \<and> num_val (o_value c) \<ge> num_val (PFloat 10))"
proof -
  have r: "op_relation ''=='' = Some (=)"
    by (simp add: op_relation_def)
  have d: "distinct (map o_name (objects (w_frame menu_world)))"
    by (simp add: scene_defs)
  have c: "check demo_env (CompareCounter ''Score'' ''=='' (PFloat 5)) menu_world"
    by (simp add: scene_defs step_defs)
  from compare_counter_first_object
         [where opr = "''==''" and R = "(=)" and E = demo_env and n = "''Score''"
            and v = "PFloat 5" and w = menu_world] r d
  have e: "check demo_env (CompareCounter ''Score'' ''=='' (PFloat 5)) menu_world =
     (\<exists>c \<in> set (objects (w_frame menu_world)).
        o_name c = ''Score'' \<and> o_cls c = CounterObject \<and>
        num_val (o_value c) = num_val (PFloat 5))"
    by blast
  have r2: "op_relation ''>='' = Some (\<ge>)"
    by (simp add: op_relation_def)
  have g: "get_object_by_name (w_frame twin_score_world) ''Score'' = Some (active_obj ''Score'' 0 0)"
    by (simp add: twin_score_world_def get_object_by_name_def active_obj_def)
  from compare_counter_first_object
         [where opr = "''>=''" and R = "(\<ge>)" and E = demo_env and n = "''Score''"
            and v = "PFloat 10" and w = twin_score_world] r2
  have t: "check demo_env (CompareCounter ''Score'' ''>='' (PFloat 10)) twin_score_world =
     (\<exists>c. get_object_by_name (w_frame twin_score_world) ''Score'' = Some c \<and>
          o_cls c = CounterObject \<and> num_val (o_value c) \<ge> num_val (PFloat 10))"
    by blast
  from r d e c r2 g t show ?thesis by blast
qed

subsection \<open>Destroyed and absent objects\<close>

lemma destroy_absent:
  assumes "distinct (map o_name (objects (w_frame w)))"
  shows "get_object_by_name (w_frame (execute E (DestroyObject n) w)) n = None"
proof (cases "get_object_by_name (w_frame w) n")
  case None
  then show ?thesis by simp
next
  case (Some obj)
  then have mem: "obj \<in> set (objects (w_frame w))" and nm: "o_name obj = n"
    using get_object_by_name_Some by blast+
  have dist: "distinct (objects (w_frame w))"
    using assms by (rule distinct_map[THEN iffD1, THEN conjunct1])
  have "n \<notin> o_name ` set (remove1 obj (objects (w_frame w)))"
  proof
    assume "n \<in> o_name ` set (remove1 obj (objects (w_frame w)))"
    then obtain x where x: "x \<in> set (remove1 obj (objects (w_frame w)))" "o_name x = n"
      by auto
    from x(1) dist have "x \<noteq> obj" "x \<in> set (objects (w_frame w))"
      by auto
    with assms mem nm x(2) show False
      by (metis distinct_map inj_onD)
  qed
  with Some show ?thesis
    by (simp add: get_object_by_name_None remove_object_def)
qed

lemma collision_absent:
  "get_object_by_name (w_frame w) a = None \<or> get_object_by_name (w_frame w) b = None \<Longrightarrow>
     \<not> check E (ObjectCollision a b) w"
  by (auto split: option.splits)

text \<open>
  C6, as stated: after \<open>DestroyObject(name)\<close> a later \<open>ObjectCollision\<close> naming the
  object is false. It fails in a frame with two objects of that name: the action
  removes the first, and the collision check finds the second, which overlaps the wall.
\<close>

theorem destroy_twin_counterexample:
  "check demo_env (ObjectCollision ''Ball'' ''Wall'')
     (execute demo_env (DestroyObject ''Ball'') twin_ball_world)"
  by (simp add: twin_ball_world_def active_obj_def get_object_by_name_def remove_object_def
      demo_env_def)

text \<open>
  C6, amended. In a frame whose object names are unique, once \<open>DestroyObject(name)\<close>
  has executed no object of that name is in the frame, and it stays so through the
  remaining actions of the event and the events after it in the same tick: every later
  \<open>ObjectCollision\<close> naming it, on either side, is false. In every frame,
  \<open>ObjectCollision\<close> is false when either named object is absent, and
  \<open>DestroyObject\<close> of a name no object carries changes nothing.
\<close>

theorem destroy_then_collision:
  "(distinct (map o_name (objects (w_frame w))) \<longrightarrow>
      \<not> check E (ObjectCollision n m)
          (fold (event_run E) evs (fold (execute E) acts (execute E (DestroyObject n) w))) \<and>
      \<not> check E (ObjectCollision m n)
          (fold (event_run E) evs (fold (execute E) acts (execute E (DestroyObject n) w)))) \<and>
   (get_object_by_name (w_frame w) a = None \<or> get_object_by_name (w_frame w) b = None \<longrightarrow>
      \<not> check E (ObjectCollision a b) w) \<and>
   (get_object_by_name (w_frame w) n = None \<longrightarrow> execute E (DestroyObject n) w = w)"
proof (intro conjI impI)
  assume d: "distinct (map o_name (objects (w_frame w)))"
  let ?w1 = "execute E (DestroyObject n) w"
  let ?w2 = "fold (event_run E) evs (fold (execute E) acts ?w1)"
  have "n \<notin> o_name ` set (objects (w_frame ?w1))"
    using destroy_absent [OF d] by (simp add: get_object_by_name_None)
  moreover have "o_name ` set (objects (w_frame ?w2)) \<subseteq> o_name ` set (objects (w_frame ?w1))"
    using fold_event_run_names fold_execute_names by (rule subset_trans)
  ultimately have gone: "get_object_by_name (w_frame ?w2) n = None"
    by (auto simp: get_object_by_name_None)
  then show "\<not> check E (ObjectCollision n m) ?w2"
    using collision_absent by blast
  from gone show "\<not> check E (ObjectCollision m n) ?w2"
    using collision_absent by blast
next
  assume "get_object_by_name (w_frame w) a = None \<or> get_object_by_name (w_frame w) b = None"
  then show "\<not> check E (ObjectCollision a b) w"
    by (rule collision_absent)
next
  assume "get_object_by_name (w_frame w) n = None"
  then show "execute E (DestroyObject n) w = w" by simp
qed

theorem destroy_then_collision_witness:
  "distinct (map o_name (objects (w_frame menu_world))) \<and>
   check demo_env (ObjectCollision ''Ball'' ''Wall'') menu_world \<and>
   \<not> check demo_env (ObjectCollision ''Ball'' ''Wall'')
       (fold (event_run demo_env) [hit_event]
          (fold (execute demo_env) [SetCounterValue ''Score'' (PFloat 10)]
             (execute demo_env (DestroyObject ''Ball'') menu_world))) \<and>
   get_object_by_name (w_frame menu_world) ''Ghost'' = None \<and>
   \<not> check demo_env (ObjectCollision ''Ghost'' ''Wall'') menu_world \<and>
   execute demo_env (DestroyObject ''Ghost'') menu_world = menu_world"
proof -
  have d: "distinct (map o_name (objects (w_frame menu_world)))"
    by (simp add: scene_defs)
  have before: "check demo_env (ObjectCollision ''Ball'' ''Wall'') menu_world"
    by (simp add: scene_defs step_defs demo_env_def)
  have ghost: "get_object_by_name (w_frame menu_world) ''Ghost'' = None"
    by (simp add: scene_defs step_defs)
  note inst = destroy_then_collision
         [where E = demo_env and w = menu_world and n = "''Ball''" and m = "''Wall''"
            and evs = "[hit_event]" and acts = "[SetCounterValue ''Score'' (PFloat 10)]"
            and a = "''Ghost''" and b = "''Wall''"]
  note inst2 = destroy_then_collision
         [where E = demo_env and w = menu_world and n = "''Ghost''" and a = "''Ghost''"
            and b = "''Wall''"]
  from inst d
  have after: "\<not> check demo_env (ObjectCollision ''Ball'' ''Wall'')
       (fold (event_run demo_env) [hit_event]
          (fold (execute demo_env) [SetCounterValue ''Score'' (PFloat 10)]
             (execute demo_env (DestroyObject ''Ball'') menu_world)))"
    by blast
  from inst ghost have absent: "\<not> check demo_env (ObjectCollision ''Ghost'' ''Wall'') menu_world"
    by blast
  from inst2 ghost have noop: "execute demo_env (DestroyObject ''Ghost'') menu_world = menu_world"
    by blast
  from d before after ghost absent noop show ?thesis by blast
qed

subsection \<open>Malformed parameters\<close>



subsection \<open>The input of a tick\<close>



subsection \<open>The engine: frame switches and the loop\<close>

lemma change_frame_heap: "heap (change_frame n eng) = heap eng"
  by (simp add: change_frame_def split: option.splits)


lemma change_frame_unknown: "frames eng n = None \<Longrightarrow> change_frame n eng = eng"
  by (simp add: change_frame_def)

lemma change_frame_known:
  "frames eng n = Some b \<Longrightarrow> current_frame (change_frame n eng) = Some b"
  by (simp add: change_frame_def)

lemma jump_frames_heap: "heap (rt_engine (jump_frames rt)) = heap (rt_engine rt)"
  by (simp add: jump_frames_def change_frame_heap split: option.splits)


lemma event_get_engine:
  "heap (rt_engine (event_get inp rt)) = heap (rt_engine rt)"
  "frames (rt_engine (event_get inp rt)) = frames (rt_engine rt)"
  "current_frame (rt_engine (event_get inp rt)) = current_frame (rt_engine rt)"
  "rt_global (event_get inp rt) = rt_global rt"
  by (simp_all add: event_get_def)

lemma update_and_draw_current:
  "current_frame (rt_engine (update_and_draw E rt)) = current_frame (rt_engine rt)"
  by (simp add: update_and_draw_def Let_def split: option.splits)

lemma update_and_draw_frames:
  "frames (rt_engine (update_and_draw E rt)) = frames (rt_engine rt)"
  by (simp add: update_and_draw_def Let_def split: option.splits)

lemma update_and_draw_heap:
  "current_frame (rt_engine rt) = Some a \<Longrightarrow>
     heap (rt_engine (update_and_draw E rt)) =
       (heap (rt_engine rt))[a := w_frame (frame_update E (tick_world rt a))]"
  by (simp add: update_and_draw_def Let_def)

lemma update_and_draw_idle:
  "current_frame (rt_engine rt) = None \<Longrightarrow> update_and_draw E rt = rt"
  by (simp add: update_and_draw_def)

lemma update_and_draw_screen:
  "current_frame (rt_engine rt) = Some a \<Longrightarrow>
     rt_screen (update_and_draw E rt) = Some (w_frame (frame_update E (tick_world rt a)))"
  by (simp add: update_and_draw_def Let_def)












text \<open>
  A pending name that is not empty, names a frame of the table and is not the name of
  the active frame: the iteration switches first and then updates the new frame.
\<close>

lemma pending_switch:
  assumes "rt_global rt = Some n" "n \<noteq> []" "current_frame (rt_engine rt) = Some a"
    "f_name (heap (rt_engine rt) ! a) \<noteq> n" "frames (rt_engine rt) n = Some b"
  shows "current_frame (rt_engine (jump_frames (event_get inp rt))) = Some b"
    and "rt_global (jump_frames (event_get inp rt)) = None"
    and "current_frame (rt_engine (loop_iteration E inp rt)) = Some b"
    and "heap (rt_engine (loop_iteration E inp rt)) =
           (heap (rt_engine rt))
             [b := w_frame (frame_update E (tick_world (jump_frames (event_get inp rt)) b))]"
proof -
  let ?rt = "jump_frames (event_get inp rt)"
  from assms have j: "?rt = (event_get inp rt)
                        \<lparr>rt_engine := change_frame n (rt_engine (event_get inp rt)),
                         rt_global := None\<rparr>"
    by (auto simp: jump_frames_def event_get_engine)
  from assms have "frames (rt_engine (event_get inp rt)) n = Some b"
    by (simp add: event_get_engine)
  with j show cur: "current_frame (rt_engine ?rt) = Some b"
    by (simp add: change_frame_known)
  from j show "rt_global ?rt = None" by simp
  from cur show "current_frame (rt_engine (loop_iteration E inp rt)) = Some b"
    by (simp add: loop_iteration_def update_and_draw_current)
  from cur have "heap (rt_engine (update_and_draw E ?rt)) =
        (heap (rt_engine ?rt))[b := w_frame (frame_update E (tick_world ?rt b))]"
    by (rule update_and_draw_heap)
  then show "heap (rt_engine (loop_iteration E inp rt)) =
        (heap (rt_engine rt))[b := w_frame (frame_update E (tick_world ?rt b))]"
    by (simp add: loop_iteration_def jump_frames_heap event_get_engine)
qed

text \<open>
  C2. \<open>GoToFrame\<close> leaves the frame and the key array as they are and only stores
  its name in the global. The frame update, whatever \<open>GoToFrame\<close> actions run in it,
  leaves \<open>current_frame\<close> as it is: the frame that is updated is the one that is
  written back and drawn, under its old name. A stored name that is not empty, is in
  the frame table and differs from the active frame's name is applied at the start of
  the next iteration: \<open>current_frame\<close> is the named frame and the global is cleared
  before the update, which then runs on the named frame.
\<close>

theorem goto_frame_deferred:
  "w_frame (execute E (GoToFrame n) w) = w_frame w \<and>
   key_array (execute E (GoToFrame n) w) = key_array w \<and>
   ENGINE_CURRENT_FRAME (execute E (GoToFrame n) w) = Some n \<and>
   current_frame (rt_engine (update_and_draw E rt)) = current_frame (rt_engine rt) \<and>
   (current_frame (rt_engine rt) = Some a \<longrightarrow>
      heap (rt_engine (update_and_draw E rt)) =
        (heap (rt_engine rt))[a := w_frame (frame_update E (tick_world rt a))] \<and>
      rt_screen (update_and_draw E rt) = Some (w_frame (frame_update E (tick_world rt a))) \<and>
      f_name (w_frame (frame_update E (tick_world rt a))) = f_name (heap (rt_engine rt) ! a)) \<and>
   (rt_global rt = Some n \<and> n \<noteq> [] \<and> current_frame (rt_engine rt) = Some a \<and>
    f_name (heap (rt_engine rt) ! a) \<noteq> n \<and> frames (rt_engine rt) n = Some b \<longrightarrow>
      current_frame (rt_engine (jump_frames (event_get inp rt))) = Some b \<and>
      rt_global (jump_frames (event_get inp rt)) = None \<and>
      current_frame (rt_engine (loop_iteration E inp rt)) = Some b \<and>
      heap (rt_engine (loop_iteration E inp rt)) =
        (heap (rt_engine rt))
          [b := w_frame (frame_update E (tick_world (jump_frames (event_get inp rt)) b))])"
proof (intro conjI impI)
  show "current_frame (rt_engine (update_and_draw E rt)) = current_frame (rt_engine rt)"
    by (rule update_and_draw_current)
next
  assume "current_frame (rt_engine rt) = Some a"
  then show "heap (rt_engine (update_and_draw E rt)) =
        (heap (rt_engine rt))[a := w_frame (frame_update E (tick_world rt a))]"
    by (rule update_and_draw_heap)
next
  assume "current_frame (rt_engine rt) = Some a"
  then show "rt_screen (update_and_draw E rt) =
               Some (w_frame (frame_update E (tick_world rt a)))"
    by (rule update_and_draw_screen)
next
  show "f_name (w_frame (frame_update E (tick_world rt a))) = f_name (heap (rt_engine rt) ! a)"
    by (simp add: frame_update_f_name tick_world_def)
next
  assume h: "rt_global rt = Some n \<and> n \<noteq> [] \<and> current_frame (rt_engine rt) = Some a \<and>
    f_name (heap (rt_engine rt) ! a) \<noteq> n \<and> frames (rt_engine rt) n = Some b"
  then show "current_frame (rt_engine (jump_frames (event_get inp rt))) = Some b"
    using pending_switch(1) by blast
  from h show "rt_global (jump_frames (event_get inp rt)) = None"
    using pending_switch(2) by blast
  from h show "current_frame (rt_engine (loop_iteration E inp rt)) = Some b"
    using pending_switch(3) by blast
  from h show "heap (rt_engine (loop_iteration E inp rt)) =
        (heap (rt_engine rt))
          [b := w_frame (frame_update E (tick_world (jump_frames (event_get inp rt)) b))]"
    using pending_switch(4) by blast
qed simp_all

theorem goto_frame_deferred_witness:
  "rt_global (demo_rt None) = None \<and>
   current_frame (rt_engine (update_and_draw demo_env
     (jump_frames (event_get space_pump (demo_rt None))))) = Some 0 \<and>
   rt_screen (update_and_draw demo_env (jump_frames (event_get space_pump (demo_rt None)))) =
     Some (w_frame (frame_update demo_env
       (tick_world (jump_frames (event_get space_pump (demo_rt None))) 0))) \<and>
   rt_global (loop_iteration demo_env space_pump (demo_rt None)) = Some ''Level1'' \<and>
   current_frame (rt_engine (loop_iteration demo_env space_pump (demo_rt None))) = Some 0 \<and>
   f_name (heap (rt_engine (loop_iteration demo_env space_pump (demo_rt None))) ! 0)
     \<noteq> ''Level1'' \<and>
   frames (rt_engine (loop_iteration demo_env space_pump (demo_rt None))) ''Level1'' = Some 1 \<and>
   current_frame (rt_engine (loop_iteration demo_env idle_pump
     (loop_iteration demo_env space_pump (demo_rt None)))) = Some 1"
proof -
  let ?rt1 = "loop_iteration demo_env space_pump (demo_rt None)"
  have g0: "rt_global (demo_rt None) = None"
    by (simp add: demo_rt_def)
  have c0: "current_frame (rt_engine (jump_frames (event_get space_pump (demo_rt None)))) = Some 0"
    by (simp add: jump_frames_def event_get_def demo_rt_def)
  from goto_frame_deferred
         [where E = demo_env and rt = "jump_frames (event_get space_pump (demo_rt None))"] c0
  have same: "current_frame (rt_engine (update_and_draw demo_env
     (jump_frames (event_get space_pump (demo_rt None))))) = Some 0"
    by simp
  from goto_frame_deferred
         [where E = demo_env and rt = "jump_frames (event_get space_pump (demo_rt None))"
            and a = 0] c0
  have drawn: "rt_screen (update_and_draw demo_env
                 (jump_frames (event_get space_pump (demo_rt None)))) =
     Some (w_frame (frame_update demo_env
       (tick_world (jump_frames (event_get space_pump (demo_rt None))) 0)))"
    by blast
  have g1: "rt_global ?rt1 = Some ''Level1''" by (simp add: first_tick)
  have c1: "current_frame (rt_engine ?rt1) = Some 0" by (simp add: first_tick)
  have n1: "f_name (heap (rt_engine ?rt1) ! 0) \<noteq> ''Level1''"
    by (simp add: first_tick menu_after_def menu_frame_def)
  have f1: "frames (rt_engine ?rt1) ''Level1'' = Some 1" by (simp add: first_tick)
  from goto_frame_deferred
         [where E = demo_env and rt = ?rt1 and n = "''Level1''" and a = 0 and b = 1
            and inp = idle_pump] g1 c1 n1 f1
  have "current_frame (rt_engine (loop_iteration demo_env idle_pump ?rt1)) = Some 1"
    by simp
  with g0 same drawn g1 c1 n1 f1 show ?thesis by blast
qed

subsection \<open>The engine's invariant\<close>

lemma wf_engine_named:
  "wf_engine eng \<Longrightarrow> current_frame eng = Some a \<Longrightarrow>
     frames eng (f_name (heap eng ! a)) = Some a"
  by (auto simp: wf_engine_def)

lemma wf_new_engine: "wf_engine new_engine"
  by (simp add: wf_engine_def new_engine_def)

lemma wf_allocate:
  assumes "wf_engine eng" "current_frame eng = None"
  shows "wf_engine (eng\<lparr>heap := heap eng @ [f],
                        frames := (frames eng)(f_name f \<mapsto> length (heap eng))\<rparr>)"
proof -
  have "\<And>n a. ((frames eng)(f_name f \<mapsto> length (heap eng))) n = Some a \<Longrightarrow>
          a < length (heap eng @ [f]) \<and> f_name ((heap eng @ [f]) ! a) = n"
  proof -
    fix n a
    assume h: "((frames eng)(f_name f \<mapsto> length (heap eng))) n = Some a"
    show "a < length (heap eng @ [f]) \<and> f_name ((heap eng @ [f]) ! a) = n"
    proof (cases "n = f_name f")
      case True
      with h have "a = length (heap eng)" by simp
      with True show ?thesis by simp
    next
      case False
      with h have "frames eng n = Some a" by simp
      with assms(1) have "a < length (heap eng)" "f_name (heap eng ! a) = n"
        by (auto simp: wf_engine_def)
      then show ?thesis by (simp add: nth_append)
    qed
  qed
  then show ?thesis
    using assms(2) by (simp add: wf_engine_def)
qed

lemma load_frames_wf:
  "wf_engine eng \<Longrightarrow> current_frame eng = None \<Longrightarrow> load_frames E eng fds = Inr eng' \<Longrightarrow>
     wf_engine eng' \<and> current_frame eng' = None"
proof (induction fds arbitrary: eng)
  case Nil
  then show ?case by simp
next
  case (Cons fd fds)
  from Cons.prems(3) obtain f where f: "load_frame E eng fd = Inr f"
    and rest: "load_frames E
                 (eng\<lparr>heap := heap eng @ [f],
                      frames := (frames eng)(f_name f \<mapsto> length (heap eng))\<rparr>) fds = Inr eng'"
    by (auto split: sum.splits)
  show ?case
  proof (rule Cons.IH [OF _ _ rest])
    show "wf_engine (eng\<lparr>heap := heap eng @ [f],
                         frames := (frames eng)(f_name f \<mapsto> length (heap eng))\<rparr>)"
      using Cons.prems(1,2) by (rule wf_allocate)
    show "current_frame (eng\<lparr>heap := heap eng @ [f],
                             frames := (frames eng)(f_name f \<mapsto> length (heap eng))\<rparr>) = None"
      using Cons.prems(2) by simp
  qed
qed

lemma change_frame_wf: "wf_engine eng \<Longrightarrow> wf_engine (change_frame n eng)"
  by (auto simp: wf_engine_def change_frame_def split: option.splits)

lemma event_get_wf: "wf_engine (rt_engine rt) \<Longrightarrow> wf_engine (rt_engine (event_get inp rt))"
  by (auto simp: wf_engine_def event_get_def)

lemma jump_frames_wf: "wf_engine (rt_engine rt) \<Longrightarrow> wf_engine (rt_engine (jump_frames rt))"
  by (simp add: jump_frames_def change_frame_wf split: option.splits)

lemma update_and_draw_wf:
  assumes "wf_engine (rt_engine rt)"
  shows "wf_engine (rt_engine (update_and_draw E rt))"
proof (cases "current_frame (rt_engine rt)")
  case None
  with assms show ?thesis by (simp add: update_and_draw_idle)
next
  case (Some a)
  let ?f = "w_frame (frame_update E (tick_world rt a))"
  have nm: "f_name ?f = f_name (heap (rt_engine rt) ! a)"
    by (simp add: frame_update_f_name tick_world_def)
  have "\<And>n b. frames (rt_engine rt) n = Some b \<Longrightarrow>
          b < length ((heap (rt_engine rt))[a := ?f]) \<and>
          f_name ((heap (rt_engine rt))[a := ?f] ! b) = n"
  proof -
    fix n b
    assume "frames (rt_engine rt) n = Some b"
    with assms have b: "b < length (heap (rt_engine rt))" "f_name (heap (rt_engine rt) ! b) = n"
      by (auto simp: wf_engine_def)
    then show "b < length ((heap (rt_engine rt))[a := ?f]) \<and>
               f_name ((heap (rt_engine rt))[a := ?f] ! b) = n"
      using nm by (cases "a = b") simp_all
  qed
  then show ?thesis
    using assms Some
    by (simp add: wf_engine_def update_and_draw_heap update_and_draw_frames
        update_and_draw_current)
qed

lemma loop_iteration_wf:
  "wf_engine (rt_engine rt) \<Longrightarrow> wf_engine (rt_engine (loop_iteration E inp rt))"
  by (simp add: loop_iteration_def update_and_draw_wf jump_frames_wf event_get_wf)

lemma main_loop_wf:
  "wf_engine (rt_engine rt) \<Longrightarrow> wf_engine (rt_engine (main_loop E inps rt))"
  by (induction inps arbitrary: rt) (auto simp: loop_iteration_wf)

text \<open>Every state a run of the game reaches satisfies the invariant.\<close>

lemma run_game_wf:
  assumes "run_game E data start global inps = Inr rt"
  shows "wf_engine (rt_engine rt)"
proof -
  from assms obtain eng where eng: "load_project E new_engine data = Inr eng"
    by (auto simp: run_game_def split: sum.splits)
  then have "wf_engine eng"
    using load_frames_wf [OF wf_new_engine, of E "get_or [] (p_frames data)" eng]
    by (simp add: load_project_def new_engine_def)
  then have "wf_engine (case start of None \<Rightarrow> eng
                         | Some n \<Rightarrow> if n \<noteq> [] then change_frame n eng else eng)"
    by (simp add: change_frame_wf split: option.splits)
  with assms eng show ?thesis
    by (auto simp: run_game_def intro: main_loop_wf)
qed

subsection \<open>Unknown frame names\<close>

text \<open>
  C5. \<open>change_frame\<close> with a name that is not in the frame table returns the engine
  as it is, whether a frame is active or none. When the global holds such a name at the
  start of an iteration and a frame is active, the engine is left as it is, the global
  no longer holds a request (it is \<open>None\<close>, or the empty name, which the loop never
  acts on), and the frame stays the active one through the iteration.
\<close>

theorem unknown_frame_dropped:
  "(frames eng n = None \<longrightarrow> change_frame n eng = eng) \<and>
   (wf_engine (rt_engine rt) \<and> rt_global rt = Some n \<and> frames (rt_engine rt) n = None \<and>
    current_frame (rt_engine rt) = Some a \<longrightarrow>
      rt_engine (jump_frames rt) = rt_engine rt \<and>
      \<not> truthy (rt_global (jump_frames rt)) \<and>
      (n \<noteq> [] \<longrightarrow> rt_global (jump_frames rt) = None) \<and>
      current_frame (rt_engine (loop_iteration E inp rt)) = Some a)"
proof (intro conjI impI)
  assume "frames eng n = None"
  then show "change_frame n eng = eng" by (rule change_frame_unknown)
next
  assume h: "wf_engine (rt_engine rt) \<and> rt_global rt = Some n \<and>
    frames (rt_engine rt) n = None \<and> current_frame (rt_engine rt) = Some a"
  then have "frames (rt_engine rt) (f_name (heap (rt_engine rt) ! a)) = Some a"
    using wf_engine_named by blast
  with h have ne: "n \<noteq> f_name (heap (rt_engine rt) ! a)" by auto
  from h ne show "rt_engine (jump_frames rt) = rt_engine rt"
    by (simp add: jump_frames_def change_frame_unknown)
  from h ne show "\<not> truthy (rt_global (jump_frames rt))"
    by (simp add: jump_frames_def truthy_def)
  have "current_frame (rt_engine (loop_iteration E inp rt)) =
          current_frame (rt_engine (jump_frames (event_get inp rt)))"
    by (simp add: loop_iteration_def update_and_draw_current)
  also from h ne have "\<dots> = Some a"
    by (simp add: jump_frames_def event_get_def change_frame_def)
  finally show "current_frame (rt_engine (loop_iteration E inp rt)) = Some a" .
next
  assume h: "wf_engine (rt_engine rt) \<and> rt_global rt = Some n \<and>
    frames (rt_engine rt) n = None \<and> current_frame (rt_engine rt) = Some a"
    and n: "n \<noteq> []"
  from h have "frames (rt_engine rt) (f_name (heap (rt_engine rt) ! a)) = Some a"
    using wf_engine_named by blast
  with h have ne: "n \<noteq> f_name (heap (rt_engine rt) ! a)" by auto
  from h ne n show "rt_global (jump_frames rt) = None"
    by (simp add: jump_frames_def)
qed

theorem unknown_frame_dropped_witness:
  "frames (rt_engine (demo_rt None)) ''Nowhere'' = None \<and>
   change_frame ''Nowhere'' (rt_engine (demo_rt None)) = rt_engine (demo_rt None) \<and>
   wf_engine (rt_engine (demo_rt (Some ''Nowhere''))) \<and>
   rt_global (demo_rt (Some ''Nowhere'')) = Some ''Nowhere'' \<and>
   frames (rt_engine (demo_rt (Some ''Nowhere''))) ''Nowhere'' = None \<and>
   current_frame (rt_engine (demo_rt (Some ''Nowhere''))) = Some 0 \<and>
   rt_engine (jump_frames (demo_rt (Some ''Nowhere''))) = rt_engine (demo_rt (Some ''Nowhere'')) \<and>
   rt_global (jump_frames (demo_rt (Some ''Nowhere''))) = None \<and>
   current_frame (rt_engine (loop_iteration demo_env idle_pump (demo_rt (Some ''Nowhere''))))
     = Some 0"
proof -
  let ?rt = "demo_rt (Some ''Nowhere'')"
  have u0: "frames (rt_engine (demo_rt None)) ''Nowhere'' = None"
    by (simp add: demo_rt_def)
  have wf: "wf_engine (rt_engine ?rt)" by (rule wf_demo)
  have g: "rt_global ?rt = Some ''Nowhere''" by (simp add: demo_rt_def)
  have u: "frames (rt_engine ?rt) ''Nowhere'' = None" by (simp add: demo_rt_def)
  have c: "current_frame (rt_engine ?rt) = Some 0" by (simp add: demo_rt_def)
  from unknown_frame_dropped [where eng = "rt_engine (demo_rt None)" and n = "''Nowhere''"] u0
  have noop: "change_frame ''Nowhere'' (rt_engine (demo_rt None)) = rt_engine (demo_rt None)"
    by blast
  from unknown_frame_dropped
         [where rt = ?rt and n = "''Nowhere''" and a = 0 and E = demo_env and inp = idle_pump]
       wf g u c
  have "rt_engine (jump_frames ?rt) = rt_engine ?rt \<and>
        rt_global (jump_frames ?rt) = None \<and>
        current_frame (rt_engine (loop_iteration demo_env idle_pump ?rt)) = Some 0"
    by simp
  with u0 noop wf g u c show ?thesis by blast
qed

subsection \<open>Frames keep their state\<close>



subsection \<open>Loading a project\<close>
















lemma succeeds_then:
  "succeeds (case r of Inl e \<Rightarrow> Inl e | Inr v \<Rightarrow> k v) =
     (\<exists>v. r = Inr v \<and> succeeds (k v))"
  by (cases r) (simp_all add: succeeds_def)



















section \<open>The project file\<close>



end
